theory Spec2Isabelle
  imports Main
begin

section \<open>Errors\<close>

text \<open>
  Go compares error values by identity: \<open>err != repo.ErrNotFound\<close>. The two sentinels
  the code compares against are constructors of their own. Every other error is a value
  built by \<open>fmt.Errorf(format, args...)\<close>; the formatting is kept symbolic (the format
  string and the argument list), because the message texts of the sentinels are declared
  outside the files at hand. An argument may be a nil error, hence \<open>error option\<close>.
\<close>

datatype error =
    RepoErrNotFound
  | ProfileErrNotFound
  | Errorf string "error option list"

section \<open>Peer messaging: the events handler (p2p/events.go)\<close>

text \<open>\<open>EventsParams\<close>: Go's \<open>int\<close> fields are only compared, never computed with, so
  they are integers; \<open>Since\<close> is a \<open>time.Time\<close>, kept as an opaque instant.\<close>

record EventsParams =
  Limit :: int
  Offset :: int
  Since :: int

text \<open>Modelled from the spec: the \<open>Message\<close> struct and its methods \<open>Header\<close> and
  \<open>WithHeaders\<close> are declared outside the files at hand. A message carries a type tag, a
  header map with a \<open>phase\<close> marker, and a body; a header that is absent reads as the
  empty string, as a Go map lookup does.\<close>

record Message =
  Type :: string
  Headers :: "string \<rightharpoonup> string"
  Body :: string

definition Header :: "Message \<Rightarrow> string \<Rightarrow> string" where
  "Header m k = (case Headers m k of None \<Rightarrow> [] | Some v \<Rightarrow> v)"

definition WithHeaders :: "Message \<Rightarrow> string \<Rightarrow> string \<Rightarrow> Message" where
  "WithHeaders m k v = m\<lparr>Headers := (Headers m)(k \<mapsto> v)\<rparr>"

text \<open>
  What \<open>handleEvents\<close> calls and does not define is a parameter: the JSON decoder on the
  body, the repo's event log \<open>n.Repo.Events(limit, offset)\<close>, \<open>msg.UpdateJSON\<close>,
  \<open>ws.sendMessage\<close>, and the constant \<open>listMax\<close>.
\<close>

record 'ev events_node =
  json_Unmarshal :: "string \<Rightarrow> error + EventsParams"
  Repo_Events :: "int \<Rightarrow> int \<Rightarrow> error + 'ev list"
  UpdateJSON :: "Message \<Rightarrow> 'ev list \<Rightarrow> Message \<times> error option"
  sendMessage :: "Message \<Rightarrow> error option"
  listMax :: int

text \<open>The handler's effects, in the order they happen: a debug log line, the query of
  the local event log with its limit and offset, a message sent on the stream.\<close>

datatype effect = LogDebug error | QueryEvents int int | Send Message

text \<open>\<open>handleEvents\<close> returns \<open>hangup\<close> (always true: it is set first and never
  changed) together with the effects performed.\<close>

definition handleEvents :: "'ev events_node \<Rightarrow> Message \<Rightarrow> bool \<times> effect list" where
  "handleEvents n msg =
     (if Header msg ''phase'' = ''request'' then
        (case json_Unmarshal n (Body msg) of
           Inl e \<Rightarrow> (True, [LogDebug e])
         | Inr ep0 \<Rightarrow>
             (let ep = (if Limit ep0 = 0 \<or> Limit ep0 > listMax n
                        then ep0\<lparr>Limit := listMax n\<rparr> else ep0)
              in case Repo_Events n (Limit ep) (Offset ep) of
                   Inl e \<Rightarrow> (True, [QueryEvents (Limit ep) (Offset ep), LogDebug e])
                 | Inr refs \<Rightarrow>
                     (let reply = WithHeaders (fst (UpdateJSON n msg refs)) ''phase'' ''response''
                      in case sendMessage n reply of
                           Some e \<Rightarrow> (True, [QueryEvents (Limit ep) (Offset ep), Send reply, LogDebug e])
                         | None \<Rightarrow> (True, [QueryEvents (Limit ep) (Offset ep), Send reply]))))
      else (True, []))"

text \<open>The queries of the event log among the effects, and the replies sent.\<close>

fun queries :: "effect list \<Rightarrow> (int \<times> int) list" where
  "queries [] = []"
| "queries (QueryEvents l off # es) = (l, off) # queries es"
| "queries (_ # es) = queries es"

fun replies :: "effect list \<Rightarrow> Message list" where
  "replies [] = []"
| "replies (Send m # es) = m # replies es"
| "replies (_ # es) = replies es"

text \<open>A concrete node for evaluation: the decoder reads three fixed bodies, the event
  log holds two events and serves a prefix of them.\<close>

definition demo_events_node :: "nat events_node" where
  "demo_events_node =
     \<lparr> json_Unmarshal = (\<lambda>b.
          if b = ''{}'' then Inr \<lparr>Limit = 0, Offset = 0, Since = 0\<rparr>
          else if b = ''{limit:500}'' then Inr \<lparr>Limit = 500, Offset = 0, Since = 0\<rparr>
          else if b = ''{limit:-7}'' then Inr \<lparr>Limit = - 7, Offset = 0, Since = 0\<rparr>
          else Inl (Errorf ''invalid character'' [])),
       Repo_Events = (\<lambda>l off. Inr (take (nat l) (drop (nat off) [1, 2]))),
       UpdateJSON = (\<lambda>m refs. (m\<lparr>Body := ''[...]''\<rparr>, None)),
       sendMessage = (\<lambda>m. None),
       listMax = 30 \<rparr>"

definition demo_request :: "string \<Rightarrow> Message" where
  "demo_request b = \<lparr> Type = ''list_events'', Headers = [''phase'' \<mapsto> ''request''], Body = b \<rparr>"

section \<open>Reference resolution (actions/dataset_ref.go)\<close>

text \<open>Modelled from the spec: the \<open>DatasetRef\<close> struct and its method \<open>Complete\<close> are
  declared outside the files at hand. A ref is a peername, a dataset name, a profile id
  and a content-addressed path; \<open>Complete()\<close> holds iff all four are populated.\<close>

record DatasetRef =
  Peername :: string
  ProfileID :: string
  Name :: string
  Path :: string

definition Complete :: "DatasetRef \<Rightarrow> bool" where
  "Complete r \<longleftrightarrow> Peername r \<noteq> [] \<and> ProfileID r \<noteq> [] \<and> Name r \<noteq> [] \<and> Path r \<noteq> []"

text \<open>
  The three collaborators take a \<open>*DatasetRef\<close>, write to it in place and return an
  error. Each is a parameter: a function from the value the pointer holds at the call to
  the value it holds afterwards and the error returned (\<open>None\<close> is nil).
  \<^item> \<open>CanonicalizeDatasetRef\<close>: \<open>repo.CanonicalizeDatasetRef(node.Repo, ref)\<close>;
  \<^item> \<open>node_ResolveDatasetRef\<close>: \<open>node.ResolveDatasetRef(ctx, ref)\<close>, the peer network;
  \<^item> a registry client \<open>rc\<close>: \<open>rc.ResolveHeadRef(ctx, ref, remoteAddr)\<close>; a nil client
    is \<open>None\<close>.
\<close>

type_synonym resolver = "DatasetRef \<Rightarrow> DatasetRef \<times> error option"

record QriNode =
  CanonicalizeDatasetRef :: resolver
  Online :: bool
  node_ResolveDatasetRef :: resolver

type_synonym Client = "string \<Rightarrow> resolver"

text \<open>
  The function starts up to two goroutines and then reads from an unbuffered channel.
  Each goroutine is a task with a state: not launched; running (inside its remote call);
  sending (the call has returned, the response is built, and the goroutine blocks in
  \<open>responses <- res\<close> until the main routine receives); finished.
\<close>

datatype task = RegistryTask | P2PTask

datatype task_state = NotLaunched | Running | Sending "error option" | Finished

text \<open>
  The state is the memory the routines share and the locals of the main routine.
  \<open>ref\<close> is the cell the caller's pointer refers to; \<open>refCopy\<close> is the cell allocated
  for the registry task (it holds the zero value until then). \<open>returned\<close> is \<open>None\<close>
  while the main routine is still running and holds \<open>(local, err)\<close> afterwards.

  Three fields only observe: \<open>calls\<close> lists the remote calls made, \<open>received\<close> lists
  what the main routine took from the channel (the task, the ref its response points to
  as read at that moment, and its error), \<open>ref_at_return\<close> is the caller's ref at the
  moment the function returned.
\<close>

record state =
  ref :: DatasetRef
  refCopy :: DatasetRef
  registry :: task_state
  p2p :: task_state
  tasks :: nat
  i :: nat
  err :: "error option"
  success :: bool
  returned :: "(bool \<times> error option) option"
  calls :: "task list"
  received :: "(task \<times> DatasetRef \<times> error option) list"
  ref_at_return :: "DatasetRef option"

definition returns :: "bool \<times> error option \<Rightarrow> state \<Rightarrow> state" where
  "returns v s = s\<lparr>returned := Some v, ref_at_return := Some (ref s)\<rparr>"

text \<open>The synchronous part, lines 26 to 72: local canonicalization, the two early
  returns, the launch of the tasks, and the return when no task was launched.\<close>

definition start :: "QriNode \<Rightarrow> Client option \<Rightarrow> string \<Rightarrow> DatasetRef \<Rightarrow> state" where
  "start node rc remoteAddr r0 =
     (let (r, e) = CanonicalizeDatasetRef node r0;
          s0 = \<lparr> ref = r,
                 refCopy = \<lparr>Peername = [], ProfileID = [], Name = [], Path = []\<rparr>,
                 registry = NotLaunched, p2p = NotLaunched,
                 tasks = 0, i = 0, err = None, success = False, returned = None,
                 calls = [], received = [], ref_at_return = None \<rparr>
      in if e = None \<and> Path r \<noteq> [] then returns (True, None) s0
         else if e \<noteq> None \<and> e \<noteq> Some RepoErrNotFound \<and> e \<noteq> Some ProfileErrNotFound
         then returns (False, e) s0
         else
           (let s1 = (if rc \<noteq> None \<and> remoteAddr \<noteq> []
                      then s0\<lparr> tasks := tasks s0 + 1,
                               refCopy := \<lparr>Peername = Peername r, ProfileID = ProfileID r,
                                           Name = Name r, Path = Path r\<rparr>,
                               registry := Running \<rparr>
                      else s0);
                s2 = (if Online node then s1\<lparr>tasks := tasks s1 + 1, p2p := Running\<rparr> else s1)
            in if tasks s2 = 0
               then returns (False, Some (Errorf ''node is not online and no registry is configured'' [])) s2
               else s2))"

text \<open>The ref a task's response points to: the registry task sends its copy, the
  peer-network task sends the caller's pointer itself.\<close>

fun res_Ref :: "task \<Rightarrow> state \<Rightarrow> DatasetRef" where
  "res_Ref RegistryTask s = refCopy s"
| "res_Ref P2PTask s = ref s"

fun task_state_of :: "task \<Rightarrow> state \<Rightarrow> task_state" where
  "task_state_of RegistryTask s = registry s"
| "task_state_of P2PTask s = p2p s"

fun set_task_state :: "task \<Rightarrow> task_state \<Rightarrow> state \<Rightarrow> state" where
  "set_task_state RegistryTask ts s = s\<lparr>registry := ts\<rparr>"
| "set_task_state P2PTask ts s = s\<lparr>p2p := ts\<rparr>"

text \<open>Lines 85 to 88, after the loop.\<close>

definition after_loop :: "state \<Rightarrow> state" where
  "after_loop s =
     (if \<not> success s
      then returns (False, Some (Errorf ''error resolving ref: %s'' [err s])) s
      else returns (False, None) s)"

text \<open>One iteration of the loop of lines 75 to 83, receiving the response of task \<open>t\<close>
  with error \<open>e\<close>; the loop is left by \<open>break\<close> or when \<open>i\<close> reaches \<open>tasks\<close>.\<close>

definition loop_body :: "task \<Rightarrow> error option \<Rightarrow> state \<Rightarrow> state" where
  "loop_body t e s =
     (let s1 = set_task_state t Finished
                 (s\<lparr>err := e, received := received s @ [(t, res_Ref t s, e)]\<rparr>)
      in if e = None
         then after_loop (s1\<lparr>success := True, ref := res_Ref t s\<rparr>)
         else (let s2 = s1\<lparr>i := i s1 + 1\<rparr>
               in if i s2 < tasks s2 then s2 else after_loop s2))"

text \<open>
  What the scheduler decides is a list of events. \<open>Run t\<close>: the remote call of task \<open>t\<close>
  returns; the call has written to the ref it was given, the task builds its response
  and blocks in its send. \<open>Recv t\<close>: the main routine's \<open><-responses\<close> takes the
  response of \<open>t\<close>. An event that cannot happen in a state leaves it as it is; in
  particular nothing is received once the main routine has returned, and a task that is
  still running then runs on. A remote call, with the check of \<open>Complete\<close> that follows
  it in the peer-network task, is taken as one atomic step.
\<close>

datatype event = Run task | Recv task

fun step :: "QriNode \<Rightarrow> Client option \<Rightarrow> string \<Rightarrow> event \<Rightarrow> state \<Rightarrow> state" where
  "step node rc remoteAddr (Run RegistryTask) s =
     (case (registry s, rc) of
        (Running, Some c) \<Rightarrow>
          (let (r, e) = c remoteAddr (refCopy s)
           in s\<lparr>refCopy := r, registry := Sending e, calls := calls s @ [RegistryTask]\<rparr>)
      | _ \<Rightarrow> s)"
| "step node rc remoteAddr (Run P2PTask) s =
     (if p2p s = Running
      then (let (r, e) = node_ResolveDatasetRef node (ref s);
                e' = (if \<not> Complete r \<and> e = None
                      then Some (Errorf ''p2p network responded with incomplete reference'' [])
                      else e)
            in s\<lparr>ref := r, p2p := Sending e', calls := calls s @ [P2PTask]\<rparr>)
      else s)"
| "step node rc remoteAddr (Recv t) s =
     (case (returned s, task_state_of t s) of
        (None, Sending e) \<Rightarrow> loop_body t e s
      | _ \<Rightarrow> s)"

fun exec :: "QriNode \<Rightarrow> Client option \<Rightarrow> string \<Rightarrow> event list \<Rightarrow> state \<Rightarrow> state" where
  "exec node rc remoteAddr [] s = s"
| "exec node rc remoteAddr (ev # evs) s = exec node rc remoteAddr evs (step node rc remoteAddr ev s)"

text \<open>\<open>ResolveDatasetRef\<close> on a node, a registry client and address, and the caller's
  ref, under a schedule: the state after the synchronous part and the events.\<close>

definition ResolveDatasetRef ::
  "QriNode \<Rightarrow> Client option \<Rightarrow> string \<Rightarrow> DatasetRef \<Rightarrow> event list \<Rightarrow> state" where
  "ResolveDatasetRef node rc remoteAddr r0 sched =
     exec node rc remoteAddr sched (start node rc remoteAddr r0)"

section \<open>The serialized log format (logbook/log/log.fbs)\<close>

text \<open>
  The schema is a declarative file; it is taken as data, declaration by declaration, in
  the order of the file. A type is one of the scalar names the schema uses, a string, a
  vector, or the name of an enum or table. An enum member carries its value only where the
  schema writes one.
\<close>

datatype fbs_type = Byte | UInt | Long | ULong | String | Vector fbs_type | Named string

record enum_decl =
  enum_name :: string
  underlying :: fbs_type
  members :: "(string \<times> int option) list"

record table_decl =
  table_name :: string
  table_fields :: "(string \<times> fbs_type) list"

record schema =
  namespace :: string
  file_identifier :: string
  file_extension :: string
  enums :: "enum_decl list"
  tables :: "table_decl list"
  root_type :: string

definition log_fbs :: schema where
  "log_fbs =
     \<lparr> namespace = ''logfb'',
       file_identifier = ''QFBF'',
       file_extension = ''qfb'',
       enums =
         [\<lparr> enum_name = ''OpType'', underlying = Byte,
             members = [(''Unknown'', Some 0), (''Init'', None), (''Amend'', None), (''Remove'', None)] \<rparr>],
       tables =
         [\<lparr> table_name = ''Operation'',
             table_fields =
               [(''type'', Named ''OpType''),
                (''model'', UInt),
                (''ref'', String),
                (''prev'', String),
                (''relations'', Vector String),
                (''name'', String),
                (''authorID'', String),
                (''timestamp'', Long),
                (''size'', ULong),
                (''note'', String)] \<rparr>,
          \<lparr> table_name = ''Log'',
             table_fields =
               [(''name'', String),
                (''identifier'', String),
                (''signature'', String),
                (''opset'', Vector (Named ''Operation'')),
                (''logs'', Vector (Named ''Log''))] \<rparr>,
          \<lparr> table_name = ''Book'',
             table_fields =
               [(''name'', String),
                (''identifier'', String),
                (''logs'', Vector (Named ''Log''))] \<rparr>],
       root_type = ''Book'' \<rparr>"

text \<open>
  The meaning of the declarations is that of the FlatBuffers schema language. An enum
  member without a value gets the value of the member before it plus one, and the first
  gets zero. \<open>byte\<close> is a signed 8-bit scalar, \<open>uint\<close> unsigned 32-bit, \<open>long\<close> signed
  64-bit, \<open>ulong\<close> unsigned 64-bit.
\<close>

fun number_members :: "int \<Rightarrow> (string \<times> int option) list \<Rightarrow> (string \<times> int) list" where
  "number_members nxt [] = []"
| "number_members nxt ((n, Some v) # ms) = (n, v) # number_members (v + 1) ms"
| "number_members nxt ((n, None) # ms) = (n, nxt) # number_members (nxt + 1) ms"

definition enum_values :: "schema \<Rightarrow> string \<Rightarrow> (string \<times> int) list option" where
  "enum_values sch en =
     map_option (\<lambda>e. number_members 0 (members e)) (find (\<lambda>e. enum_name e = en) (enums sch))"

definition enum_underlying :: "schema \<Rightarrow> string \<Rightarrow> fbs_type option" where
  "enum_underlying sch en = map_option underlying (find (\<lambda>e. enum_name e = en) (enums sch))"

definition field_type :: "schema \<Rightarrow> string \<Rightarrow> string \<Rightarrow> fbs_type option" where
  "field_type sch tn fn =
     (case find (\<lambda>t. table_name t = tn) (tables sch) of
        None \<Rightarrow> None
      | Some t \<Rightarrow> map_of (table_fields t) fn)"

datatype signedness = Signed | Unsigned

fun scalar :: "fbs_type \<Rightarrow> (signedness \<times> nat) option" where
  "scalar Byte = Some (Signed, 8)"
| "scalar UInt = Some (Unsigned, 32)"
| "scalar Long = Some (Signed, 64)"
| "scalar ULong = Some (Unsigned, 64)"
| "scalar _ = None"

text \<open>Modelled from the spec: the encoder is not among the files at hand. A serialized
  file starts with the 32-bit little-endian offset of its root table, bytes 0 to 3, and
  carries the schema's file identifier right after it, bytes 4 to 7, as the comment on
  \<open>file_identifier\<close> in the schema says. A schema that declares no extension gets
  \<open>bin\<close>, the extension of a generic binary.\<close>

definition le32 :: "nat \<Rightarrow> string" where
  "le32 n = [char_of n, char_of (n div 2 ^ 8), char_of (n div 2 ^ 16), char_of (n div 2 ^ 24)]"

definition finished_buffer :: "schema \<Rightarrow> nat \<Rightarrow> string \<Rightarrow> string" where
  "finished_buffer sch root_offset body = le32 root_offset @ file_identifier sch @ body"

definition default_file_extension :: string where
  "default_file_extension = ''bin''"

section \<open>The states the resolution reaches\<close>

text \<open>
  Every state a run reaches is of one of four kinds: the main routine is in its loop and
  has received only errors so far; it returned before launching anything; it returned on
  a response without error, the last one received; or it returned after as many
  responses as tasks, all with errors. \<open>tasks\<close> always counts the tasks launched.
\<close>

definition all_errors :: "(task \<times> DatasetRef \<times> error option) list \<Rightarrow> bool" where
  "all_errors rs = list_all (\<lambda>x. snd (snd x) \<noteq> None) rs"

definition launched :: "state \<Rightarrow> nat" where
  "launched s = (if registry s = NotLaunched then 0 else 1) + (if p2p s = NotLaunched then 0 else 1)"

definition in_loop :: "state \<Rightarrow> bool" where
  "in_loop s \<longleftrightarrow> returned s = None \<and> i s < tasks s \<and> length (received s) = i s
     \<and> all_errors (received s) \<and> \<not> success s
     \<and> (p2p s = Sending None \<longrightarrow> Complete (ref s))"

definition returned_early :: "state \<Rightarrow> bool" where
  "returned_early s \<longleftrightarrow> returned s \<noteq> None \<and> received s = [] \<and> tasks s = 0 \<and> calls s = []"

definition returned_winner :: "state \<Rightarrow> bool" where
  "returned_winner s \<longleftrightarrow> returned s = Some (False, None)
     \<and> (\<exists>es t r. received s = es @ [(t, r, None)] \<and> all_errors es
           \<and> ref_at_return s = Some r \<and> (t = P2PTask \<longrightarrow> Complete r))"

definition returned_failed :: "state \<Rightarrow> bool" where
  "returned_failed s \<longleftrightarrow> 1 \<le> tasks s \<and> length (received s) = tasks s \<and> all_errors (received s)
     \<and> received s \<noteq> []
     \<and> returned s = Some (False, Some (Errorf ''error resolving ref: %s'' [snd (snd (last (received s)))]))"

definition invar :: "state \<Rightarrow> bool" where
  "invar s \<longleftrightarrow> tasks s = launched s
     \<and> (in_loop s \<or> returned_early s \<or> returned_winner s \<or> returned_failed s)"

section \<open>Concrete nodes and clients for evaluation\<close>

definition alice_sales :: DatasetRef where
  "alice_sales = \<lparr>Peername = ''alice'', ProfileID = [], Name = ''sales'', Path = []\<rparr>"

definition p2p_ok :: resolver where
  "p2p_ok r = (r\<lparr>ProfileID := ''QmPeer'', Path := ''/ipfs/QmFromPeers''\<rparr>, None)"

definition p2p_fails :: resolver where
  "p2p_fails r = (r, Some (Errorf ''no peers'' []))"

definition p2p_incomplete :: resolver where
  "p2p_incomplete r = (r\<lparr>ProfileID := ''QmPeer''\<rparr>, None)"

definition registry_ok :: Client where
  "registry_ok addr r = (r\<lparr>ProfileID := ''QmReg'', Path := ''/ipfs/QmFromRegistry''\<rparr>, None)"

definition registry_fails :: Client where
  "registry_fails addr r = (r, Some (Errorf ''404'' []))"

definition local_node :: QriNode where
  "local_node = \<lparr> CanonicalizeDatasetRef = (\<lambda>r. (r\<lparr>ProfileID := ''QmAlice'', Path := ''/ipfs/QmLocal''\<rparr>, None)),
                   Online = True, node_ResolveDatasetRef = p2p_ok \<rparr>"

definition disk_error_node :: QriNode where
  "disk_error_node = \<lparr> CanonicalizeDatasetRef = (\<lambda>r. (r, Some (Errorf ''input/output error'' []))),
                   Online = True, node_ResolveDatasetRef = p2p_ok \<rparr>"

definition remote_node :: "resolver \<Rightarrow> QriNode" where
  "remote_node p = \<lparr> CanonicalizeDatasetRef = (\<lambda>r. (r, Some RepoErrNotFound)),
                      Online = True, node_ResolveDatasetRef = p \<rparr>"

section \<open>Properties of the events handler\<close>

text \<open>
  C9. A request whose body does not decode is logged and dropped: the handler's only
  effect is the log line; it does not query the event log and sends no reply.
\<close>

theorem handleEvents_malformed_dropped:
  assumes "Header msg ''phase'' = ''request''"
    and "json_Unmarshal n (Body msg) = Inl e"
  shows "handleEvents n msg = (True, [LogDebug e])
       \<and> replies (snd (handleEvents n msg)) = []
       \<and> queries (snd (handleEvents n msg)) = []"
  using assms by (simp add: handleEvents_def)

theorem handleEvents_malformed_dropped_witness:
  "Header (demo_request ''garbage'') ''phase'' = ''request''
   \<and> json_Unmarshal demo_events_node (Body (demo_request ''garbage'')) = Inl (Errorf ''invalid character'' [])
   \<and> handleEvents demo_events_node (demo_request ''garbage'') = (True, [LogDebug (Errorf ''invalid character'' [])])
   \<and> replies (snd (handleEvents demo_events_node (demo_request ''garbage''))) = []"
proof -
  have h1: "Header (demo_request ''garbage'') ''phase'' = ''request''"
    by (simp add: Header_def demo_request_def)
  have h2: "json_Unmarshal demo_events_node (Body (demo_request ''garbage''))
            = Inl (Errorf ''invalid character'' [])"
    by (simp add: demo_events_node_def demo_request_def)
  from handleEvents_malformed_dropped [OF h1 h2] h1 h2 show ?thesis by simp
qed

text \<open>
  C7. When the body decodes and the requested limit is zero or above \<open>listMax\<close>, the
  event log is queried exactly once, with limit \<open>listMax\<close> and the requested offset.
\<close>

theorem handleEvents_clamps_limit:
  assumes "Header msg ''phase'' = ''request''"
    and "json_Unmarshal n (Body msg) = Inr ep"
    and "Limit ep = 0 \<or> Limit ep > listMax n"
  shows "queries (snd (handleEvents n msg)) = [(listMax n, Offset ep)]"
  using assms
  by (auto simp add: handleEvents_def Let_def split: sum.splits option.splits)

theorem handleEvents_clamps_limit_witness:
  "Header (demo_request ''{limit:500}'') ''phase'' = ''request''
   \<and> json_Unmarshal demo_events_node (Body (demo_request ''{limit:500}''))
       = Inr \<lparr>Limit = 500, Offset = 0, Since = 0\<rparr>
   \<and> Limit \<lparr>Limit = 500, Offset = 0, Since = 0\<rparr> > listMax demo_events_node
   \<and> queries (snd (handleEvents demo_events_node (demo_request ''{limit:500}''))) = [(30, 0)]"
proof -
  have h1: "Header (demo_request ''{limit:500}'') ''phase'' = ''request''"
    by (simp add: Header_def demo_request_def)
  have h2: "json_Unmarshal demo_events_node (Body (demo_request ''{limit:500}''))
            = Inr \<lparr>Limit = 500, Offset = 0, Since = 0\<rparr>"
    by (simp add: demo_events_node_def demo_request_def)
  have h3: "Limit \<lparr>Limit = 500, Offset = 0, Since = 0\<rparr> = 0
            \<or> Limit \<lparr>Limit = 500, Offset = 0, Since = 0\<rparr> > listMax demo_events_node"
    by (simp add: demo_events_node_def)
  have "queries (snd (handleEvents demo_events_node (demo_request ''{limit:500}'')))
        = [(listMax demo_events_node, Offset \<lparr>Limit = 500, Offset = 0, Since = 0\<rparr>)]"
    by (rule handleEvents_clamps_limit [OF h1 h2 h3])
  with h1 h2 show ?thesis by (simp add: demo_events_node_def)
qed

text \<open>
  C8. When the body decodes with a strictly negative limit, the clamp does not fire:
  the event log is queried with the negative limit as requested. (\<open>listMax\<close> is a
  constant declared outside the files at hand; as a maximum it is taken non-negative.)
\<close>

theorem handleEvents_negative_limit_passed:
  assumes "Header msg ''phase'' = ''request''"
    and "json_Unmarshal n (Body msg) = Inr ep"
    and "Limit ep < 0"
    and "0 \<le> listMax n"
  shows "queries (snd (handleEvents n msg)) = [(Limit ep, Offset ep)]"
  using assms
  by (auto simp add: handleEvents_def Let_def split: sum.splits option.splits)

theorem handleEvents_negative_limit_passed_witness:
  "Header (demo_request ''{limit:-7}'') ''phase'' = ''request''
   \<and> json_Unmarshal demo_events_node (Body (demo_request ''{limit:-7}''))
       = Inr \<lparr>Limit = - 7, Offset = 0, Since = 0\<rparr>
   \<and> Limit \<lparr>Limit = - 7, Offset = 0, Since = 0\<rparr> < 0
   \<and> 0 \<le> listMax demo_events_node
   \<and> queries (snd (handleEvents demo_events_node (demo_request ''{limit:-7}''))) = [(- 7, 0)]"
proof -
  have h1: "Header (demo_request ''{limit:-7}'') ''phase'' = ''request''"
    by (simp add: Header_def demo_request_def)
  have h2: "json_Unmarshal demo_events_node (Body (demo_request ''{limit:-7}''))
            = Inr \<lparr>Limit = - 7, Offset = 0, Since = 0\<rparr>"
    by (simp add: demo_events_node_def demo_request_def)
  have h3: "Limit \<lparr>Limit = - 7, Offset = 0, Since = 0\<rparr> < 0" by simp
  have h4: "0 \<le> listMax demo_events_node" by (simp add: demo_events_node_def)
  have "queries (snd (handleEvents demo_events_node (demo_request ''{limit:-7}'')))
        = [(Limit \<lparr>Limit = - 7, Offset = 0, Since = 0\<rparr>, Offset \<lparr>Limit = - 7, Offset = 0, Since = 0\<rparr>)]"
    by (rule handleEvents_negative_limit_passed [OF h1 h2 h3 h4])
  with h1 h2 h3 h4 show ?thesis by simp
qed

section \<open>Reachable states of the resolution\<close>

lemma all_errors_snoc: "all_errors (rs @ [(t, r, e)]) \<longleftrightarrow> all_errors rs \<and> e \<noteq> None"
  by (auto simp add: all_errors_def)

lemma invar_start: "invar (start node rc remoteAddr r0)"
  by (auto simp add: start_def invar_def launched_def in_loop_def returned_early_def returns_def
      all_errors_def Let_def split: prod.splits)

lemma launched_Run: "launched (step node rc remoteAddr (Run t) s) = launched s"
  by (cases t) (auto simp add: launched_def Let_def split: task_state.splits option.splits prod.splits)

lemma tasks_Run: "tasks (step node rc remoteAddr (Run t) s) = tasks s"
  by (cases t) (auto simp add: Let_def split: task_state.splits option.splits prod.splits)

lemma in_loop_Run: "in_loop s \<Longrightarrow> in_loop (step node rc remoteAddr (Run t) s)"
  by (cases t) (auto simp add: in_loop_def Let_def split: task_state.splits option.splits prod.splits)

lemma returned_early_Run:
  "tasks s = launched s \<Longrightarrow> returned_early s \<Longrightarrow> step node rc remoteAddr (Run t) s = s"
  by (cases t)
     (auto simp add: returned_early_def launched_def Let_def
           split: task_state.splits option.splits prod.splits if_splits)

lemma returned_winner_Run: "returned_winner s \<Longrightarrow> returned_winner (step node rc remoteAddr (Run t) s)"
  by (cases t) (auto simp add: returned_winner_def Let_def split: task_state.splits option.splits prod.splits)

lemma returned_failed_Run: "returned_failed s \<Longrightarrow> returned_failed (step node rc remoteAddr (Run t) s)"
  by (cases t) (auto simp add: returned_failed_def Let_def split: task_state.splits option.splits prod.splits)

lemma step_Recv_returned: "returned s \<noteq> None \<Longrightarrow> step node rc remoteAddr (Recv t) s = s"
  by (auto split: option.splits)

lemma invar_Run: "invar s \<Longrightarrow> invar (step node rc remoteAddr (Run t) s)"
  unfolding invar_def
  using launched_Run tasks_Run in_loop_Run returned_early_Run returned_winner_Run returned_failed_Run
  by metis

lemma launched_Recv: "launched (step node rc remoteAddr (Recv t) s) = launched s"
  by (cases t)
     (auto simp add: launched_def loop_body_def after_loop_def returns_def Let_def
           split: task_state.splits option.splits)

lemma tasks_Recv: "tasks (step node rc remoteAddr (Recv t) s) = tasks s"
  by (cases t)
     (auto simp add: loop_body_def after_loop_def returns_def Let_def
           split: task_state.splits option.splits)

lemma loop_body_winner:
  assumes "in_loop s" and "task_state_of t s = Sending None"
  shows "returned_winner (loop_body t None s)"
proof -
  from assms have c: "t = P2PTask \<longrightarrow> Complete (res_Ref t s)"
    by (cases t) (auto simp add: in_loop_def)
  from assms have a: "all_errors (received s)" by (simp add: in_loop_def)
  have r: "received (loop_body t None s) = received s @ [(t, res_Ref t s, None)]"
    by (cases t) (simp_all add: loop_body_def after_loop_def returns_def Let_def)
  have v: "returned (loop_body t None s) = Some (False, None)"
    by (cases t) (simp_all add: loop_body_def after_loop_def returns_def Let_def)
  have f: "ref_at_return (loop_body t None s) = Some (res_Ref t s)"
    by (cases t) (simp_all add: loop_body_def after_loop_def returns_def Let_def)
  from c a r v f show ?thesis unfolding returned_winner_def by blast
qed

lemma loop_body_error:
  assumes "in_loop s" and "task_state_of t s = Sending (Some x)"
  shows "in_loop (loop_body t (Some x) s) \<or> returned_failed (loop_body t (Some x) s)"
proof (cases "Suc (i s) < tasks s")
  case True
  with assms have "in_loop (loop_body t (Some x) s)"
    by (cases t) (auto simp add: in_loop_def loop_body_def Let_def all_errors_snoc)
  then show ?thesis ..
next
  case False
  with assms have "returned_failed (loop_body t (Some x) s)"
    by (cases t)
       (auto simp add: in_loop_def returned_failed_def loop_body_def after_loop_def returns_def
             Let_def all_errors_snoc)
  then show ?thesis ..
qed

lemma invar_Recv: 
  assumes "invar s" 
  shows "invar (step node rc remoteAddr (Recv t) s)"
proof (cases "returned s")
  case (Some v)
  then have "step node rc remoteAddr (Recv t) s = s" by (simp add: step_Recv_returned)
  with assms show ?thesis by simp
next
  case None
  with assms have l: "in_loop s" and tl: "tasks s = launched s"
    by (auto simp add: invar_def returned_early_def returned_winner_def returned_failed_def)
  show ?thesis
  proof (cases "task_state_of t s")
    case (Sending e)
    have st: "step node rc remoteAddr (Recv t) s = loop_body t e s"
      using None Sending by simp
    have tl': "tasks (loop_body t e s) = launched (loop_body t e s)"
      using tl tasks_Recv [of node rc remoteAddr t s] launched_Recv [of node rc remoteAddr t s] st
      by simp
    show ?thesis
    proof (cases e)
      case None
      with l Sending have "returned_winner (loop_body t e s)" by (simp add: loop_body_winner)
      with tl' st show ?thesis by (simp add: invar_def)
    next
      case (Some x)
      with l Sending have "in_loop (loop_body t e s) \<or> returned_failed (loop_body t e s)"
        by (simp add: loop_body_error)
      with tl' st show ?thesis by (auto simp add: invar_def)
    qed
  qed (use assms None in \<open>simp_all\<close>)
qed

lemma invar_step: "invar s \<Longrightarrow> invar (step node rc remoteAddr ev s)"
  by (cases ev) (simp_all only: invar_Run invar_Recv)

lemma invar_exec: "invar s \<Longrightarrow> invar (exec node rc remoteAddr evs s)"
  by (induction evs arbitrary: s) (simp_all add: invar_step del: step.simps)

lemma invar_ResolveDatasetRef: "invar (ResolveDatasetRef node rc remoteAddr r0 sched)"
  by (simp add: ResolveDatasetRef_def invar_exec invar_start)

lemma exec_append:
  "exec node rc remoteAddr (xs @ ys) s = exec node rc remoteAddr ys (exec node rc remoteAddr xs s)"
  by (induction xs arbitrary: s) simp_all

section \<open>Properties of the resolution\<close>

lemma exec_nothing_launched:
  "returned s \<noteq> None \<Longrightarrow> registry s = NotLaunched \<Longrightarrow> p2p s = NotLaunched
   \<Longrightarrow> exec node rc remoteAddr evs s = s"
proof (induction evs)
  case Nil
  then show ?case by simp
next
  case (Cons ev evs)
  have "step node rc remoteAddr ev s = s"
  proof (cases ev)
    case (Run t)
    with Cons.prems show ?thesis by (cases t) simp_all
  next
    case (Recv t)
    with Cons.prems show ?thesis by auto
  qed
  with Cons show ?case by simp
qed

text \<open>
  C1. When local canonicalization returns no error and leaves a complete ref, the
  function has returned \<open>(true, nil)\<close> under every schedule, the empty one included: no
  task is launched and no remote call is made. The caller's ref is the canonicalized one.
\<close>

theorem ResolveDatasetRef_local:
  assumes "CanonicalizeDatasetRef node r0 = (r, None)" and "Complete r"
  shows "returned (ResolveDatasetRef node rc remoteAddr r0 sched) = Some (True, None)
       \<and> calls (ResolveDatasetRef node rc remoteAddr r0 sched) = []
       \<and> registry (ResolveDatasetRef node rc remoteAddr r0 sched) = NotLaunched
       \<and> p2p (ResolveDatasetRef node rc remoteAddr r0 sched) = NotLaunched
       \<and> ref (ResolveDatasetRef node rc remoteAddr r0 sched) = r"
proof -
  let ?s = "start node rc remoteAddr r0"
  from assms have p: "Path r \<noteq> []" by (simp add: Complete_def)
  with assms(1) have s: "returned ?s = Some (True, None)" "registry ?s = NotLaunched"
    "p2p ?s = NotLaunched" "calls ?s = []" "ref ?s = r"
    by (simp_all add: start_def returns_def)
  then have "exec node rc remoteAddr sched ?s = ?s" by (simp add: exec_nothing_launched)
  with s show ?thesis by (simp add: ResolveDatasetRef_def)
qed

theorem ResolveDatasetRef_local_witness:
  "CanonicalizeDatasetRef local_node alice_sales
     = (\<lparr>Peername = ''alice'', ProfileID = ''QmAlice'', Name = ''sales'', Path = ''/ipfs/QmLocal''\<rparr>, None)
   \<and> Complete \<lparr>Peername = ''alice'', ProfileID = ''QmAlice'', Name = ''sales'', Path = ''/ipfs/QmLocal''\<rparr>
   \<and> returned (ResolveDatasetRef local_node (Some registry_ok) ''https://registry'' alice_sales
        [Run RegistryTask, Run P2PTask, Recv P2PTask]) = Some (True, None)
   \<and> calls (ResolveDatasetRef local_node (Some registry_ok) ''https://registry'' alice_sales
        [Run RegistryTask, Run P2PTask, Recv P2PTask]) = []"
proof -
  have h1: "CanonicalizeDatasetRef local_node alice_sales
     = (\<lparr>Peername = ''alice'', ProfileID = ''QmAlice'', Name = ''sales'', Path = ''/ipfs/QmLocal''\<rparr>, None)"
    by (simp add: local_node_def alice_sales_def)
  have h2: "Complete \<lparr>Peername = ''alice'', ProfileID = ''QmAlice'', Name = ''sales'', Path = ''/ipfs/QmLocal''\<rparr>"
    by (simp add: Complete_def)
  from ResolveDatasetRef_local [OF h1 h2, of "Some registry_ok" "''https://registry''"
      "[Run RegistryTask, Run P2PTask, Recv P2PTask]"] h1 h2
  show ?thesis by simp
qed

text \<open>
  C2. When local canonicalization returns an error that is neither of the two not-found
  sentinels, the function has returned \<open>(false, that error)\<close> under every schedule, the
  empty one included: no task is launched and no remote call is made.
\<close>

theorem ResolveDatasetRef_local_error_aborts:
  assumes "CanonicalizeDatasetRef node r0 = (r, Some e)"
    and "e \<noteq> RepoErrNotFound" and "e \<noteq> ProfileErrNotFound"
  shows "returned (ResolveDatasetRef node rc remoteAddr r0 sched) = Some (False, Some e)
       \<and> calls (ResolveDatasetRef node rc remoteAddr r0 sched) = []
       \<and> registry (ResolveDatasetRef node rc remoteAddr r0 sched) = NotLaunched
       \<and> p2p (ResolveDatasetRef node rc remoteAddr r0 sched) = NotLaunched"
proof -
  let ?s = "start node rc remoteAddr r0"
  from assms have s: "returned ?s = Some (False, Some e)" "registry ?s = NotLaunched"
    "p2p ?s = NotLaunched" "calls ?s = []"
    by (simp_all add: start_def returns_def)
  then have "exec node rc remoteAddr sched ?s = ?s" by (simp add: exec_nothing_launched)
  with s show ?thesis by (simp add: ResolveDatasetRef_def)
qed

theorem ResolveDatasetRef_local_error_aborts_witness:
  "CanonicalizeDatasetRef disk_error_node alice_sales = (alice_sales, Some (Errorf ''input/output error'' []))
   \<and> Errorf ''input/output error'' [] \<noteq> RepoErrNotFound
   \<and> Errorf ''input/output error'' [] \<noteq> ProfileErrNotFound
   \<and> returned (ResolveDatasetRef disk_error_node (Some registry_ok) ''https://registry'' alice_sales
        [Run RegistryTask, Run P2PTask, Recv P2PTask]) = Some (False, Some (Errorf ''input/output error'' []))
   \<and> calls (ResolveDatasetRef disk_error_node (Some registry_ok) ''https://registry'' alice_sales
        [Run RegistryTask, Run P2PTask, Recv P2PTask]) = []"
proof -
  have h1: "CanonicalizeDatasetRef disk_error_node alice_sales
            = (alice_sales, Some (Errorf ''input/output error'' []))"
    by (simp add: disk_error_node_def)
  have h2: "Errorf ''input/output error'' [] \<noteq> RepoErrNotFound" by simp
  have h3: "Errorf ''input/output error'' [] \<noteq> ProfileErrNotFound" by simp
  from ResolveDatasetRef_local_error_aborts [OF h1 h2 h3, of "Some registry_ok" "''https://registry''"
      "[Run RegistryTask, Run P2PTask, Recv P2PTask]"] h1
  show ?thesis by simp
qed

lemma step_Recv_success_fields:
  assumes "returned s = None" and "task_state_of t s = Sending None"
  shows "returned (step node rc remoteAddr (Recv t) s) = Some (False, None)"
    and "ref (step node rc remoteAddr (Recv t) s) = res_Ref t s"
    and "ref_at_return (step node rc remoteAddr (Recv t) s) = Some (res_Ref t s)"
    and "received (step node rc remoteAddr (Recv t) s) = received s @ [(t, res_Ref t s, None)]"
  using assms
  by (cases t; simp add: loop_body_def after_loop_def returns_def Let_def)+

lemma in_loop_if_running: "invar s \<Longrightarrow> returned s = None \<Longrightarrow> in_loop s"
  by (auto simp add: invar_def returned_early_def returned_winner_def returned_failed_def)

lemma winner_P2P_complete:
  assumes "invar s" and "(P2PTask, r, None) \<in> set (received s)"
  shows "Complete r"
proof -
  have n1: "\<not> all_errors (received s)"
    using assms(2) by (force simp add: all_errors_def list_all_iff)
  then have "\<not> in_loop s" "\<not> returned_failed s" "\<not> returned_early s"
    using assms(2) by (auto simp add: in_loop_def returned_failed_def returned_early_def)
  with assms(1) have "returned_winner s" by (auto simp add: invar_def)
  then obtain es t' r' where w: "received s = es @ [(t', r', None)]" "all_errors es"
    "t' = P2PTask \<longrightarrow> Complete r'"
    by (auto simp add: returned_winner_def)
  from w(2) assms(2) have "(P2PTask, r, None) \<notin> set es"
    by (force simp add: all_errors_def list_all_iff)
  with w(1) assms(2) have "t' = P2PTask \<and> r' = r" by auto
  with w(3) show ?thesis by simp
qed

text \<open>
  C3. In any state a run reaches with the main routine still in its loop, so after any
  number of responses with errors, when a task holds a response without error and the
  main routine receives it, the function returns \<open>(false, nil)\<close> and the caller's ref
  becomes the ref of that response. Everything received before carried an error.
\<close>

theorem first_success_wins:
  assumes "s = ResolveDatasetRef node rc remoteAddr r0 sched"
    and "returned s = None"
    and "task_state_of t s = Sending None"
  shows "returned (ResolveDatasetRef node rc remoteAddr r0 (sched @ [Recv t])) = Some (False, None)
       \<and> ref (ResolveDatasetRef node rc remoteAddr r0 (sched @ [Recv t])) = res_Ref t s
       \<and> ref_at_return (ResolveDatasetRef node rc remoteAddr r0 (sched @ [Recv t])) = Some (res_Ref t s)
       \<and> received (ResolveDatasetRef node rc remoteAddr r0 (sched @ [Recv t]))
           = received s @ [(t, res_Ref t s, None)]
       \<and> all_errors (received s)
       \<and> length (received s) < tasks s"
proof -
  have e: "ResolveDatasetRef node rc remoteAddr r0 (sched @ [Recv t])
           = step node rc remoteAddr (Recv t) s"
    using assms(1) by (simp add: ResolveDatasetRef_def exec_append)
  have "invar s" using assms(1) by (simp add: invar_ResolveDatasetRef)
  with assms(2) have "in_loop s" by (simp add: in_loop_if_running)
  then have a: "all_errors (received s)" "length (received s) < tasks s"
    by (simp_all add: in_loop_def)
  from step_Recv_success_fields [OF assms(2,3)] a show ?thesis
    unfolding e by simp
qed

theorem first_success_wins_witness:
  "returned (ResolveDatasetRef (remote_node p2p_fails) (Some registry_ok) ''https://registry''
      alice_sales [Run P2PTask, Recv P2PTask, Run RegistryTask]) = None
   \<and> task_state_of RegistryTask (ResolveDatasetRef (remote_node p2p_fails) (Some registry_ok)
      ''https://registry'' alice_sales [Run P2PTask, Recv P2PTask, Run RegistryTask]) = Sending None
   \<and> received (ResolveDatasetRef (remote_node p2p_fails) (Some registry_ok) ''https://registry''
      alice_sales [Run P2PTask, Recv P2PTask, Run RegistryTask])
      = [(P2PTask, alice_sales, Some (Errorf ''no peers'' []))]
   \<and> returned (ResolveDatasetRef (remote_node p2p_fails) (Some registry_ok) ''https://registry''
      alice_sales ([Run P2PTask, Recv P2PTask, Run RegistryTask] @ [Recv RegistryTask]))
      = Some (False, None)
   \<and> ref (ResolveDatasetRef (remote_node p2p_fails) (Some registry_ok) ''https://registry''
      alice_sales ([Run P2PTask, Recv P2PTask, Run RegistryTask] @ [Recv RegistryTask]))
      = \<lparr>Peername = ''alice'', ProfileID = ''QmReg'', Name = ''sales'', Path = ''/ipfs/QmFromRegistry''\<rparr>"
proof -
  let ?s = "ResolveDatasetRef (remote_node p2p_fails) (Some registry_ok) ''https://registry''
      alice_sales [Run P2PTask, Recv P2PTask, Run RegistryTask]"
  have h2: "returned ?s = None" by (simp add: ResolveDatasetRef_def start_def returns_def loop_body_def after_loop_def
        Let_def Complete_def all_errors_def remote_node_def alice_sales_def p2p_fails_def registry_ok_def)
  have h3: "task_state_of RegistryTask ?s = Sending None" by (simp add: ResolveDatasetRef_def start_def returns_def loop_body_def after_loop_def
        Let_def Complete_def all_errors_def remote_node_def alice_sales_def p2p_fails_def registry_ok_def)
  have r: "received ?s = [(P2PTask, alice_sales, Some (Errorf ''no peers'' []))]"
    by (simp add: ResolveDatasetRef_def start_def returns_def loop_body_def after_loop_def
        Let_def Complete_def all_errors_def remote_node_def alice_sales_def p2p_fails_def registry_ok_def)
  have c: "res_Ref RegistryTask ?s
    = \<lparr>Peername = ''alice'', ProfileID = ''QmReg'', Name = ''sales'', Path = ''/ipfs/QmFromRegistry''\<rparr>"
    by (simp add: ResolveDatasetRef_def start_def returns_def loop_body_def after_loop_def
        Let_def Complete_def all_errors_def remote_node_def alice_sales_def p2p_fails_def registry_ok_def)
  from first_success_wins [OF refl h2 h3] h2 h3 r c show ?thesis by simp
qed

text \<open>
  C4. The claim that a task finishing after the winner leaves the caller's ref alone fails
  for the peer-network task, which is handed the caller's pointer and not a copy. Local
  lookup finds nothing, the registry answers first and wins, the function returns with
  the registry's ref in the caller's ref; the peer-network call then returns and the
  caller's ref holds the peers' answer.
\<close>

theorem late_p2p_task_overwrites_ref:
  "returned (ResolveDatasetRef (remote_node p2p_ok) (Some registry_ok) ''https://registry''
      alice_sales [Run RegistryTask, Recv RegistryTask]) = Some (False, None)
   \<and> ref_at_return (ResolveDatasetRef (remote_node p2p_ok) (Some registry_ok) ''https://registry''
      alice_sales [Run RegistryTask, Recv RegistryTask])
      = Some \<lparr>Peername = ''alice'', ProfileID = ''QmReg'', Name = ''sales'', Path = ''/ipfs/QmFromRegistry''\<rparr>
   \<and> ref (ResolveDatasetRef (remote_node p2p_ok) (Some registry_ok) ''https://registry''
      alice_sales [Run RegistryTask, Recv RegistryTask])
      = \<lparr>Peername = ''alice'', ProfileID = ''QmReg'', Name = ''sales'', Path = ''/ipfs/QmFromRegistry''\<rparr>
   \<and> p2p (ResolveDatasetRef (remote_node p2p_ok) (Some registry_ok) ''https://registry''
      alice_sales [Run RegistryTask, Recv RegistryTask]) = Running
   \<and> returned (ResolveDatasetRef (remote_node p2p_ok) (Some registry_ok) ''https://registry''
      alice_sales [Run RegistryTask, Recv RegistryTask, Run P2PTask]) = Some (False, None)
   \<and> ref (ResolveDatasetRef (remote_node p2p_ok) (Some registry_ok) ''https://registry''
      alice_sales [Run RegistryTask, Recv RegistryTask, Run P2PTask])
      = \<lparr>Peername = ''alice'', ProfileID = ''QmPeer'', Name = ''sales'', Path = ''/ipfs/QmFromPeers''\<rparr>"
  by (simp add: ResolveDatasetRef_def start_def returns_def loop_body_def after_loop_def
        Let_def Complete_def all_errors_def remote_node_def alice_sales_def p2p_ok_def registry_ok_def)

text \<open>
  C5. In any state a run reaches: when the peer-network call returns no error and leaves
  an incomplete ref, the task sends the error \<open>p2p network responded with incomplete
  reference\<close>; and a response of the peer-network task that the main routine received
  without error carries a complete ref.
\<close>

theorem p2p_incomplete_is_error:
  assumes "s = ResolveDatasetRef node rc remoteAddr r0 sched"
  shows "(p2p s = Running \<and> snd (node_ResolveDatasetRef node (ref s)) = None
            \<and> \<not> Complete (fst (node_ResolveDatasetRef node (ref s)))
          \<longrightarrow> p2p (ResolveDatasetRef node rc remoteAddr r0 (sched @ [Run P2PTask]))
                = Sending (Some (Errorf ''p2p network responded with incomplete reference'' [])))
       \<and> (\<forall>r. (P2PTask, r, None) \<in> set (received s) \<longrightarrow> Complete r)"
proof -
  have e: "ResolveDatasetRef node rc remoteAddr r0 (sched @ [Run P2PTask])
           = step node rc remoteAddr (Run P2PTask) s"
    using assms by (simp add: ResolveDatasetRef_def exec_append)
  have a: "p2p s = Running \<and> snd (node_ResolveDatasetRef node (ref s)) = None
            \<and> \<not> Complete (fst (node_ResolveDatasetRef node (ref s)))
          \<longrightarrow> p2p (step node rc remoteAddr (Run P2PTask) s)
                = Sending (Some (Errorf ''p2p network responded with incomplete reference'' []))"
    by (simp add: Let_def split: prod.splits)
  have "invar s" using assms by (simp add: invar_ResolveDatasetRef)
  then have b: "\<forall>r. (P2PTask, r, None) \<in> set (received s) \<longrightarrow> Complete r"
    using winner_P2P_complete by blast
  from a b show ?thesis unfolding e by simp
qed

theorem p2p_incomplete_is_error_witness:
  "p2p (ResolveDatasetRef (remote_node p2p_incomplete) None [] alice_sales []) = Running
   \<and> snd (node_ResolveDatasetRef (remote_node p2p_incomplete)
        (ref (ResolveDatasetRef (remote_node p2p_incomplete) None [] alice_sales []))) = None
   \<and> \<not> Complete (fst (node_ResolveDatasetRef (remote_node p2p_incomplete)
        (ref (ResolveDatasetRef (remote_node p2p_incomplete) None [] alice_sales []))))
   \<and> p2p (ResolveDatasetRef (remote_node p2p_incomplete) None [] alice_sales ([] @ [Run P2PTask]))
       = Sending (Some (Errorf ''p2p network responded with incomplete reference'' []))
   \<and> (P2PTask, \<lparr>Peername = ''alice'', ProfileID = ''QmPeer'', Name = ''sales'', Path = ''/ipfs/QmFromPeers''\<rparr>, None)
       \<in> set (received (ResolveDatasetRef (remote_node p2p_ok) None [] alice_sales [Run P2PTask, Recv P2PTask]))
   \<and> Complete \<lparr>Peername = ''alice'', ProfileID = ''QmPeer'', Name = ''sales'', Path = ''/ipfs/QmFromPeers''\<rparr>"
proof -
  let ?s = "ResolveDatasetRef (remote_node p2p_incomplete) None [] alice_sales []"
  let ?w = "ResolveDatasetRef (remote_node p2p_ok) None [] alice_sales [Run P2PTask, Recv P2PTask]"
  let ?r = "\<lparr>Peername = ''alice'', ProfileID = ''QmPeer'', Name = ''sales'', Path = ''/ipfs/QmFromPeers''\<rparr>"
  have a1: "p2p ?s = Running" by (simp add: ResolveDatasetRef_def start_def returns_def loop_body_def after_loop_def
        Let_def Complete_def all_errors_def remote_node_def alice_sales_def p2p_incomplete_def p2p_ok_def)
  have a2: "snd (node_ResolveDatasetRef (remote_node p2p_incomplete) (ref ?s)) = None"
    by (simp add: ResolveDatasetRef_def start_def returns_def loop_body_def after_loop_def
        Let_def Complete_def all_errors_def remote_node_def alice_sales_def p2p_incomplete_def p2p_ok_def)
  have a3: "\<not> Complete (fst (node_ResolveDatasetRef (remote_node p2p_incomplete) (ref ?s)))"
    by (simp add: ResolveDatasetRef_def start_def returns_def loop_body_def after_loop_def
        Let_def Complete_def all_errors_def remote_node_def alice_sales_def p2p_incomplete_def p2p_ok_def)
  have b1: "(P2PTask, ?r, None) \<in> set (received ?w)" by (simp add: ResolveDatasetRef_def start_def returns_def loop_body_def after_loop_def
        Let_def Complete_def all_errors_def remote_node_def alice_sales_def p2p_incomplete_def p2p_ok_def)
  from p2p_incomplete_is_error [OF refl, of "remote_node p2p_incomplete" None "[]" alice_sales "[]"]
    a1 a2 a3
  have c1: "p2p (ResolveDatasetRef (remote_node p2p_incomplete) None [] alice_sales ([] @ [Run P2PTask]))
       = Sending (Some (Errorf ''p2p network responded with incomplete reference'' []))"
    by blast
  from p2p_incomplete_is_error [OF refl, of "remote_node p2p_ok" None "[]" alice_sales
      "[Run P2PTask, Recv P2PTask]"] b1
  have c2: "Complete ?r" by blast
  from a1 a2 a3 b1 c1 c2 show ?thesis by blast
qed

text \<open>
  C6. When at least one task was launched and the main routine has received as many
  responses as tasks, all with errors, the function has returned \<open>false\<close> and the error
  \<open>fmt.Errorf("error resolving ref: %s", err)\<close> around the error of the last response
  received.
\<close>

theorem all_tasks_fail:
  assumes "s = ResolveDatasetRef node rc remoteAddr r0 sched"
    and "1 \<le> tasks s"
    and "length (received s) = tasks s"
    and "all_errors (received s)"
  shows "returned s
           = Some (False, Some (Errorf ''error resolving ref: %s'' [snd (snd (last (received s)))]))
       \<and> snd (snd (last (received s))) \<noteq> None
       \<and> tasks s = launched s"
proof -
  have inv: "invar s" using assms(1) by (simp add: invar_ResolveDatasetRef)
  from assms(2,3) have ne: "received s \<noteq> []" by auto
  then have "last (received s) \<in> set (received s)" by simp
  with assms(4) have l: "snd (snd (last (received s))) \<noteq> None"
    by (simp add: all_errors_def list_all_iff)
  have n1: "\<not> in_loop s" using assms(3) by (simp add: in_loop_def)
  have n2: "\<not> returned_early s" using assms(2) by (simp add: returned_early_def)
  have n3: "\<not> returned_winner s" using assms(4)
    by (auto simp add: returned_winner_def all_errors_snoc)
  from inv n1 n2 n3 have "returned_failed s" and "tasks s = launched s"
    by (auto simp add: invar_def)
  with l show ?thesis by (simp add: returned_failed_def)
qed

theorem all_tasks_fail_witness:
  "1 \<le> tasks (ResolveDatasetRef (remote_node p2p_incomplete) (Some registry_fails) ''https://registry''
      alice_sales [Run P2PTask, Recv P2PTask, Run RegistryTask, Recv RegistryTask])
   \<and> length (received (ResolveDatasetRef (remote_node p2p_incomplete) (Some registry_fails)
      ''https://registry'' alice_sales [Run P2PTask, Recv P2PTask, Run RegistryTask, Recv RegistryTask]))
      = tasks (ResolveDatasetRef (remote_node p2p_incomplete) (Some registry_fails)
      ''https://registry'' alice_sales [Run P2PTask, Recv P2PTask, Run RegistryTask, Recv RegistryTask])
   \<and> all_errors (received (ResolveDatasetRef (remote_node p2p_incomplete) (Some registry_fails)
      ''https://registry'' alice_sales [Run P2PTask, Recv P2PTask, Run RegistryTask, Recv RegistryTask]))
   \<and> returned (ResolveDatasetRef (remote_node p2p_incomplete) (Some registry_fails) ''https://registry''
      alice_sales [Run P2PTask, Recv P2PTask, Run RegistryTask, Recv RegistryTask])
      = Some (False, Some (Errorf ''error resolving ref: %s'' [Some (Errorf ''404'' [])]))"
proof -
  let ?s = "ResolveDatasetRef (remote_node p2p_incomplete) (Some registry_fails) ''https://registry''
      alice_sales [Run P2PTask, Recv P2PTask, Run RegistryTask, Recv RegistryTask]"
  have h2: "1 \<le> tasks ?s" by (simp add: ResolveDatasetRef_def start_def returns_def loop_body_def after_loop_def
        Let_def Complete_def all_errors_def remote_node_def alice_sales_def p2p_incomplete_def registry_fails_def)
  have h3: "length (received ?s) = tasks ?s" by (simp add: ResolveDatasetRef_def start_def returns_def loop_body_def after_loop_def
        Let_def Complete_def all_errors_def remote_node_def alice_sales_def p2p_incomplete_def registry_fails_def)
  have h4: "all_errors (received ?s)" by (simp add: ResolveDatasetRef_def start_def returns_def loop_body_def after_loop_def
        Let_def Complete_def all_errors_def remote_node_def alice_sales_def p2p_incomplete_def registry_fails_def)
  have l: "snd (snd (last (received ?s))) = Some (Errorf ''404'' [])" by (simp add: ResolveDatasetRef_def start_def returns_def loop_body_def after_loop_def
        Let_def Complete_def all_errors_def remote_node_def alice_sales_def p2p_incomplete_def registry_fails_def)
  from all_tasks_fail [OF refl h2 h3 h4] h2 h3 h4 l show ?thesis by simp
qed

section \<open>Properties of the serialized log format\<close>

text \<open>
  C10. In the schema, \<open>OpType\<close> is a byte enum whose members number Unknown 0, Init 1,
  Amend 2, Remove 3; an \<open>Operation\<close> has the ten fields of the claim, \<open>type\<close> of that
  enum, \<open>model\<close> unsigned 32-bit, \<open>timestamp\<close> signed 64-bit, \<open>size\<close> unsigned 64-bit,
  \<open>ref\<close>, \<open>prev\<close>, \<open>name\<close>, \<open>authorID\<close> and \<open>note\<close> strings, \<open>relations\<close> a vector
  of strings; the file identifier has four bytes and sits at byte offset 4 of every
  serialized file; the file extension is \<open>qfb\<close>, not that of a generic binary.
\<close>

theorem log_fbs_format:
  "enum_underlying log_fbs ''OpType'' = Some Byte
   \<and> enum_values log_fbs ''OpType''
       = Some [(''Unknown'', 0), (''Init'', 1), (''Amend'', 2), (''Remove'', 3)]
   \<and> field_type log_fbs ''Operation'' ''type'' = Some (Named ''OpType'')
   \<and> map_option scalar (field_type log_fbs ''Operation'' ''model'') = Some (Some (Unsigned, 32))
   \<and> map_option scalar (field_type log_fbs ''Operation'' ''timestamp'') = Some (Some (Signed, 64))
   \<and> map_option scalar (field_type log_fbs ''Operation'' ''size'') = Some (Some (Unsigned, 64))
   \<and> map (field_type log_fbs ''Operation'') [''ref'', ''prev'', ''name'', ''authorID'', ''note'']
       = [Some String, Some String, Some String, Some String, Some String]
   \<and> field_type log_fbs ''Operation'' ''relations'' = Some (Vector String)
   \<and> map fst (table_fields (hd (tables log_fbs)))
       = [''type'', ''model'', ''ref'', ''prev'', ''relations'', ''name'', ''authorID'',
          ''timestamp'', ''size'', ''note'']
   \<and> length (file_identifier log_fbs) = 4
   \<and> take 4 (drop 4 (finished_buffer log_fbs root_offset body)) = ''QFBF''
   \<and> file_extension log_fbs = ''qfb''
   \<and> file_extension log_fbs \<noteq> default_file_extension"
  by (simp add: log_fbs_def enum_values_def enum_underlying_def field_type_def
      finished_buffer_def le32_def default_file_extension_def)

end
